theory Spec2Isabelle
  imports Complex_Main "HOL-Library.Log_Nat"
begin

section \<open>Python values used by \<open>pc_specs_checker.py\<close>\<close>

text \<open>
  The module works on Python \<open>int\<close>s (unbounded, modelled as \<open>int\<close>), on Python
  \<open>float\<close>s (IEEE binary64) and on strings. Three exceptions can leave its functions:
  \<open>ZeroDivisionError\<close> (a true division by zero), \<open>OverflowError\<close> (an \<open>int\<close> too
  large for a float, an integer quotient too large for a float, \<open>int(inf)\<close>) and
  \<open>ValueError\<close> (\<open>int(nan)\<close>, the text of an \<open>int\<close> of more than 4300 digits). A
  function that can raise returns \<open>py_error + 'a\<close>.
\<close>

datatype py_error = ZeroDivisionError | OverflowError | ValueError

definition ebind :: "py_error + 'a \<Rightarrow> ('a \<Rightarrow> py_error + 'b) \<Rightarrow> py_error + 'b" where
  "ebind m f = (case m of Inl e \<Rightarrow> Inl e | Inr x \<Rightarrow> f x)"

subsection \<open>Binary64 floats\<close>

text \<open>
  A finite float is represented by the rational number it denotes; the two infinities
  and NaN are separate constructors. The two zeros \<open>0.0\<close> and \<open>-0.0\<close> are one value
  \<open>Fin 0\<close>: the module only tests floats for truth, compares them with \<open>0.5\<close> and
  truncates them with \<open>int\<close>, and none of these tells the zeros apart. Every result
  of an operation below is a binary64 value; a statement about all \<open>Fin q\<close> holds in
  particular for the \<open>q\<close> that are.
\<close>

datatype pyfloat = Fin rat | PInf | NInf | NaN

text \<open>Rounding to the nearest integer, ties to the even one.\<close>

definition round_half_even :: "rat \<Rightarrow> int" where
  "round_half_even x =
     (let f = \<lfloor>x\<rfloor>; r = x - of_int f
      in if r < 1 / 2 then f else if 1 / 2 < r then f + 1 else if even f then f else f + 1)"

text \<open>\<open>ilog2 x\<close> is the binary exponent of a positive rational: \<open>2 powi ilog2 x \<le> x < 2 powi (ilog2 x + 1)\<close>.\<close>

definition ilog2 :: "rat \<Rightarrow> int" where
  "ilog2 x = (case quotient_of x of (n, d) \<Rightarrow>
     (let k = bitlen n - bitlen d in if 2 powi k \<le> x then k else k - 1))"

text \<open>
  The exponent of the unit in the last place: 53 significant bits, and the spacing
  \<open>2 powi (- 1074)\<close> of the subnormal numbers as the finest one.
\<close>

definition ulp_exp :: "rat \<Rightarrow> int" where
  "ulp_exp x = max (ilog2 \<bar>x\<bar> - 52) (- 1074)"

text \<open>Round to nearest, ties to even, with the exponent unbounded above.\<close>

definition round64 :: "rat \<Rightarrow> rat" where
  "round64 x = (if x = 0 then 0
     else of_int (round_half_even (x / 2 powi ulp_exp x)) * 2 powi ulp_exp x)"

text \<open>The result of a float operation whose exact value is \<open>x\<close>: overflow gives an infinity.\<close>

definition to_float :: "rat \<Rightarrow> pyfloat" where
  "to_float x =
     (let r = round64 x
      in if 2 ^ 1024 \<le> r then PInf else if r \<le> - (2 ^ 1024) then NInf else Fin r)"

text \<open>Conversion of an \<open>int\<close> operand to float raises \<open>OverflowError\<close> instead.\<close>

definition float_of_int :: "int \<Rightarrow> py_error + pyfloat" where
  "float_of_int i =
     (case to_float (of_int i) of Fin r \<Rightarrow> Inr (Fin r) | _ \<Rightarrow> Inl OverflowError)"

text \<open>\<open>a / b\<close> on two \<open>int\<close>s: the correctly rounded quotient.\<close>

definition int_truediv :: "int \<Rightarrow> int \<Rightarrow> py_error + pyfloat" where
  "int_truediv a b =
     (if b = 0 then Inl ZeroDivisionError
      else case to_float (of_int a / of_int b) of
             Fin r \<Rightarrow> Inr (Fin r)
           | _ \<Rightarrow> Inl OverflowError)"

fun float_add :: "pyfloat \<Rightarrow> pyfloat \<Rightarrow> pyfloat" where
  "float_add (Fin a) (Fin b) = to_float (a + b)"
| "float_add NaN _ = NaN"
| "float_add _ NaN = NaN"
| "float_add PInf NInf = NaN"
| "float_add NInf PInf = NaN"
| "float_add PInf _ = PInf"
| "float_add _ PInf = PInf"
| "float_add NInf _ = NInf"
| "float_add _ NInf = NInf"

definition float_sgn :: "pyfloat \<Rightarrow> int" where
  "float_sgn x = (case x of
       Fin a \<Rightarrow> (if a < 0 then - 1 else if a = 0 then 0 else 1)
     | PInf \<Rightarrow> 1
     | NInf \<Rightarrow> - 1
     | NaN \<Rightarrow> 0)"

definition float_inf :: "int \<Rightarrow> pyfloat" where
  "float_inf s = (if s < 0 then NInf else if s = 0 then NaN else PInf)"

fun float_mul :: "pyfloat \<Rightarrow> pyfloat \<Rightarrow> pyfloat" where
  "float_mul (Fin a) (Fin b) = to_float (a * b)"
| "float_mul NaN _ = NaN"
| "float_mul _ NaN = NaN"
| "float_mul x y = float_inf (float_sgn x * float_sgn y)"

text \<open>\<open>x / y\<close> on floats: Python raises on a zero divisor before anything else.\<close>

fun float_truediv :: "pyfloat \<Rightarrow> pyfloat \<Rightarrow> py_error + pyfloat" where
  "float_truediv x (Fin b) =
     (if b = 0 then Inl ZeroDivisionError
      else case x of
             Fin a \<Rightarrow> Inr (to_float (a / b))
           | NaN \<Rightarrow> Inr NaN
           | _ \<Rightarrow> Inr (float_inf (float_sgn x * float_sgn (Fin b))))"
| "float_truediv NaN _ = Inr NaN"
| "float_truediv _ NaN = Inr NaN"
| "float_truediv (Fin a) _ = Inr (Fin 0)"
| "float_truediv _ _ = Inr NaN"

fun float_ge :: "pyfloat \<Rightarrow> pyfloat \<Rightarrow> bool" where
  "float_ge NaN _ = False"
| "float_ge _ NaN = False"
| "float_ge (Fin a) (Fin b) = (b \<le> a)"
| "float_ge PInf _ = True"
| "float_ge _ NInf = True"
| "float_ge _ _ = False"

text \<open>\<open>bool(x)\<close> for a float is \<open>x != 0.0\<close>; \<open>int(x)\<close> truncates towards zero.\<close>

definition float_truthy :: "pyfloat \<Rightarrow> bool" where
  "float_truthy x = (x \<noteq> Fin 0)"

definition py_int :: "pyfloat \<Rightarrow> py_error + int" where
  "py_int x = (case x of
       Fin a \<Rightarrow> Inr (if 0 \<le> a then \<lfloor>a\<rfloor> else \<lceil>a\<rceil>)
     | NaN \<Rightarrow> Inl ValueError
     | _ \<Rightarrow> Inl OverflowError)"

section \<open>The benchmark tables\<close>

text \<open>
  The two dict literals, in source order. No key occurs twice (lemmas
  \<open>CPU_BENCHMARK_DB_distinct\<close>, \<open>GPU_BENCHMARK_DB_distinct\<close>), so \<open>map_of\<close> reads them
  as the dict does.
\<close>

definition CPU_BENCHMARK_DB :: "(string \<times> int) list" where
  "CPU_BENCHMARK_DB =
   [(''Intel Core i9-13900K'', 45000),
    (''Intel Core i7-13700K'', 38000),
    (''Intel Core i5-13600K'', 32000),
    (''Intel Core i9-12900K'', 40000),
    (''Intel Core i7-12700K'', 35000),
    (''Intel Core i5-12600K'', 28000),
    (''Intel Core i7-11700K'', 25000),
    (''Intel Core i5-11600K'', 20000),
    (''Intel Core i7-10700K'', 22000),
    (''Intel Core i5-10400'', 15000),
    (''Intel Core i3-10100'', 10000),
    (''AMD Ryzen 9 7950X'', 48000),
    (''AMD Ryzen 9 7900X'', 42000),
    (''AMD Ryzen 7 7700X'', 35000),
    (''AMD Ryzen 5 7600X'', 28000),
    (''AMD Ryzen 9 5950X'', 38000),
    (''AMD Ryzen 9 5900X'', 35000),
    (''AMD Ryzen 7 5800X'', 28000),
    (''AMD Ryzen 5 5600X'', 22000),
    (''AMD Ryzen 7 3700X'', 20000),
    (''AMD Ryzen 5 3600'', 16000),
    (''AMD Ryzen 3 3300X'', 12000)]"

definition GPU_BENCHMARK_DB :: "(string \<times> int) list" where
  "GPU_BENCHMARK_DB =
   [(''NVIDIA GeForce RTX 4090'', 35000),
    (''NVIDIA GeForce RTX 4080'', 28000),
    (''NVIDIA GeForce RTX 4070 Ti'', 24000),
    (''NVIDIA GeForce RTX 4070'', 20000),
    (''NVIDIA GeForce RTX 4060 Ti'', 16000),
    (''NVIDIA GeForce RTX 4060'', 14000),
    (''NVIDIA GeForce RTX 3090'', 25000),
    (''NVIDIA GeForce RTX 3080'', 22000),
    (''NVIDIA GeForce RTX 3070'', 18000),
    (''NVIDIA GeForce RTX 3060 Ti'', 15000),
    (''NVIDIA GeForce RTX 3060'', 13000),
    (''NVIDIA GeForce RTX 3050'', 10000),
    (''NVIDIA GeForce GTX 1660 Ti'', 9000),
    (''NVIDIA GeForce GTX 1660'', 8000),
    (''NVIDIA GeForce GTX 1650'', 6000),
    (''AMD Radeon RX 7900 XTX'', 30000),
    (''AMD Radeon RX 7900 XT'', 26000),
    (''AMD Radeon RX 7800 XT'', 22000),
    (''AMD Radeon RX 7700 XT'', 18000),
    (''AMD Radeon RX 7600'', 14000),
    (''AMD Radeon RX 6900 XT'', 23000),
    (''AMD Radeon RX 6800 XT'', 20000),
    (''AMD Radeon RX 6700 XT'', 16000),
    (''AMD Radeon RX 6600 XT'', 12000),
    (''AMD Radeon RX 6600'', 10000),
    (''AMD Radeon RX 6500 XT'', 7000)]"

section \<open>The score resolver\<close>

text \<open>
  \<open>get_cpu_score(cpu_name, cores=None, clock_speed=None)\<close>: \<open>cores\<close> is an \<open>int\<close> or
  \<open>None\<close>, \<open>clock_speed\<close> a \<open>float\<close> or \<open>None\<close>. The guard \<open>if cores and clock_speed\<close> tests
  truth: \<open>None\<close>, \<open>0\<close> and \<open>0.0\<close> are false. In \<open>cores * clock_speed * 1000\<close> the \<open>int\<close>
  operands are converted to float, the products are float products, and \<open>int\<close> truncates.
\<close>

definition cpu_estimate :: "int \<Rightarrow> pyfloat \<Rightarrow> py_error + int" where
  "cpu_estimate cores clock_speed =
     ebind (float_of_int cores) (\<lambda>c.
     ebind (float_of_int 1000) (\<lambda>k.
       py_int (float_mul (float_mul c clock_speed) k)))"

definition get_cpu_score :: "string \<Rightarrow> int option \<Rightarrow> pyfloat option \<Rightarrow> py_error + int" where
  "get_cpu_score cpu_name cores clock_speed =
     (case map_of CPU_BENCHMARK_DB cpu_name of
        Some s \<Rightarrow> Inr s
      | None \<Rightarrow>
          (case cores of
             None \<Rightarrow> Inr 10000
           | Some c \<Rightarrow>
               if c = 0 then Inr 10000
               else (case clock_speed of
                       None \<Rightarrow> Inr 10000
                     | Some k \<Rightarrow>
                         if float_truthy k then cpu_estimate c k else Inr 10000)))"

text \<open>\<open>get_gpu_score(gpu_name, vram_gb=None)\<close>: \<open>vram_gb\<close> is an \<open>int\<close> or \<open>None\<close>.\<close>

definition get_gpu_score :: "string \<Rightarrow> int option \<Rightarrow> int" where
  "get_gpu_score gpu_name vram_gb =
     (case map_of GPU_BENCHMARK_DB gpu_name of
        Some s \<Rightarrow> s
      | None \<Rightarrow>
          (case vram_gb of
             None \<Rightarrow> 8000
           | Some v \<Rightarrow>
               if v = 0 then 8000
               else if v \<ge> 16 then 20000
               else if v \<ge> 12 then 15000
               else if v \<ge> 8 then 12000
               else if v \<ge> 6 then 9000
               else if v \<ge> 4 then 6000
               else 3000))"

section \<open>The compatibility check\<close>

text \<open>
  The argument and result dicts of \<open>check_game_compatibility\<close> have fixed keys and are
  records here; a key read with \<open>.get\<close> is an optional field. Field names are the
  dict keys, with a prefix where two dicts share a key: \<open>c_\<close> and \<open>g_\<close> for the keys
  of \<open>user_hardware["cpu"]\<close> and \<open>user_hardware["gpu"]\<close>, \<open>req_ram_gb\<close> for \<open>ram_gb\<close> of a
  requirement tier, \<open>us_\<close> for the keys of \<open>details["user_scores"]\<close>; the key \<open>notes\<close> is the
  field \<open>notes'\<close>, since \<open>notes\<close> is a keyword of the prover. Scores and
  \<open>ram_gb\<close> are \<open>int\<close>s, as the docstring types them.
\<close>

record cpu_hw =
  c_name :: string
  c_cores :: "int option"
  c_clock_speed :: "pyfloat option"
  c_score :: "int option"

record gpu_hw =
  g_name :: string
  g_vram_gb :: "int option"
  g_score :: "int option"

record user_hw =
  cpu :: cpu_hw
  gpu :: gpu_hw
  ram_gb :: int

record req_tier =
  cpu_score :: int
  gpu_score :: int
  req_ram_gb :: int

record game_reqs =
  minimum :: req_tier
  recommended :: req_tier

record user_scores_rec =
  us_cpu :: int
  us_gpu :: int
  us_ram :: int

record compat_details =
  cpu_meets_min :: bool
  cpu_meets_rec :: bool
  gpu_meets_min :: bool
  gpu_meets_rec :: bool
  ram_meets_min :: bool
  ram_meets_rec :: bool
  user_scores :: user_scores_rec

record compat_result =
  can_run :: bool
  settings :: string
  notes' :: string
  details :: compat_details

subsection \<open>String formatting\<close>

text \<open>
  An f-string field prints an \<open>int\<close> as \<open>str\<close> does. CPython converts an \<open>int\<close> of at
  most \<open>sys.int_max_str_digits\<close> decimal digits (4300 unless the interpreter is
  configured otherwise; the sign is not counted) and raises \<open>ValueError\<close> for a
  longer one. \<open>digits_int\<close> is the decimal text, \<open>str_int\<close> the conversion with its
  limit, \<open>join\<close> is \<open>sep.join(xs)\<close>.
\<close>

definition int_max_str_digits :: nat where
  "int_max_str_digits = 4300"

fun str_nat :: "nat \<Rightarrow> string" where
  "str_nat n =
     (if n < 10 then [''0123456789'' ! n]
      else str_nat (n div 10) @ [''0123456789'' ! (n mod 10)])"

declare str_nat.simps [simp del]

definition digits_int :: "int \<Rightarrow> string" where
  "digits_int i = (if i < 0 then CHR ''-'' # str_nat (nat (- i)) else str_nat (nat i))"

definition str_int :: "int \<Rightarrow> py_error + string" where
  "str_int i =
     (if 10 ^ int_max_str_digits \<le> \<bar>i\<bar> then Inl ValueError else Inr (digits_int i))"

fun join :: "string \<Rightarrow> string list \<Rightarrow> string" where
  "join sep [] = []"
| "join sep [x] = x"
| "join sep (x # y # ys) = x @ sep @ join sep (y # ys)"

subsection \<open>Step 1: the user's scores\<close>

text \<open>A score passed in the dict is taken as it is; otherwise the resolver is called.\<close>

definition user_cpu_score :: "user_hw \<Rightarrow> py_error + int" where
  "user_cpu_score user_hardware =
     (case c_score (cpu user_hardware) of
        Some s \<Rightarrow> Inr s
      | None \<Rightarrow> get_cpu_score (c_name (cpu user_hardware)) (c_cores (cpu user_hardware))
                  (c_clock_speed (cpu user_hardware)))"

definition user_gpu_score :: "user_hw \<Rightarrow> int" where
  "user_gpu_score user_hardware =
     (case g_score (gpu user_hardware) of
        Some s \<Rightarrow> s
      | None \<Rightarrow> get_gpu_score (g_name (gpu user_hardware)) (g_vram_gb (gpu user_hardware)))"

subsection \<open>Steps 2 to 6: flags and tier\<close>

text \<open>
  \<open>gap\<close> is the quotient \<open>(user - min) / (rec - min)\<close> of the last branch, a true
  division of \<open>int\<close>s. \<open>evaluate\<close> is the body of \<open>check_game_compatibility\<close> from
  step 2 on, as a function of the three scores of step 1; the locals
  \<open>cpu_meets_min\<close>, ..., \<open>ram_meets_rec\<close> are \<open>cpu_min\<close>, ..., \<open>ram_rec\<close> here, the
  longer names being the fields of \<open>details\<close>. Each branch builds its own result, as
  in the source. In the first branch the list \<open>bottlenecks\<close> is the three optional
  entries in order, and formatting an entry can raise. In the mean \<open>(cpu_gap + gpu_gap + ram_gap) / 3\<close> the sums are float
  sums and the divisor is the float 3.0.
\<close>

definition gap :: "int \<Rightarrow> int \<Rightarrow> int \<Rightarrow> py_error + pyfloat" where
  "gap user mn rc = int_truediv (user - mn) (rc - mn)"

definition evaluate :: "int \<Rightarrow> int \<Rightarrow> int \<Rightarrow> game_reqs \<Rightarrow> py_error + compat_result" where
  "evaluate user_cpu user_gpu user_ram game_requirements =
    (let min_reqs = minimum game_requirements;
         rec_reqs = recommended game_requirements;
         cpu_min = (user_cpu \<ge> cpu_score min_reqs);
         gpu_min = (user_gpu \<ge> gpu_score min_reqs);
         ram_min = (user_ram \<ge> req_ram_gb min_reqs);
         cpu_rec = (user_cpu \<ge> cpu_score rec_reqs);
         gpu_rec = (user_gpu \<ge> gpu_score rec_reqs);
         ram_rec = (user_ram \<ge> req_ram_gb rec_reqs);
         meets_minimum = (cpu_min \<and> gpu_min \<and> ram_min);
         meets_recommended = (cpu_rec \<and> gpu_rec \<and> ram_rec)
     in
       if \<not> meets_minimum then
         ebind (if \<not> cpu_min
                then ebind (str_int user_cpu) (\<lambda>yours.
                     ebind (str_int (cpu_score min_reqs)) (\<lambda>need.
                       Inr [''CPU (yours: '' @ yours @ '', need: '' @ need @ '')'']))
                else Inr []) (\<lambda>cpu_entry.
         ebind (if \<not> gpu_min
                then ebind (str_int user_gpu) (\<lambda>yours.
                     ebind (str_int (gpu_score min_reqs)) (\<lambda>need.
                       Inr [''GPU (yours: '' @ yours @ '', need: '' @ need @ '')'']))
                else Inr []) (\<lambda>gpu_entry.
         ebind (if \<not> ram_min
                then ebind (str_int user_ram) (\<lambda>yours.
                     ebind (str_int (req_ram_gb min_reqs)) (\<lambda>need.
                       Inr [''RAM (yours: '' @ yours @ ''GB, need: '' @ need @ ''GB)'']))
                else Inr []) (\<lambda>ram_entry.
           Inr \<lparr>can_run = False,
                settings = ''Cannot Run'',
                notes' = ''Hardware below minimum requirements. Bottlenecks: ''
                          @ join '', '' (cpu_entry @ gpu_entry @ ram_entry),
                details = \<lparr>cpu_meets_min = cpu_min, cpu_meets_rec = cpu_rec,
                           gpu_meets_min = gpu_min, gpu_meets_rec = gpu_rec,
                           ram_meets_min = ram_min, ram_meets_rec = ram_rec,
                           user_scores = \<lparr>us_cpu = user_cpu, us_gpu = user_gpu,
                                          us_ram = user_ram\<rparr>\<rparr>\<rparr>)))
       else if meets_recommended then
         Inr \<lparr>can_run = True,
              settings = ''High'',
              notes' = ''Your hardware meets or exceeds recommended requirements. Enjoy high settings!'',
              details = \<lparr>cpu_meets_min = cpu_min, cpu_meets_rec = cpu_rec,
                         gpu_meets_min = gpu_min, gpu_meets_rec = gpu_rec,
                         ram_meets_min = ram_min, ram_meets_rec = ram_rec,
                         user_scores = \<lparr>us_cpu = user_cpu, us_gpu = user_gpu,
                                        us_ram = user_ram\<rparr>\<rparr>\<rparr>
       else
         ebind (gap user_cpu (cpu_score min_reqs) (cpu_score rec_reqs)) (\<lambda>cpu_gap.
         ebind (gap user_gpu (gpu_score min_reqs) (gpu_score rec_reqs)) (\<lambda>gpu_gap.
         ebind (gap user_ram (req_ram_gb min_reqs) (req_ram_gb rec_reqs)) (\<lambda>ram_gap.
         ebind (float_truediv (float_add (float_add cpu_gap gpu_gap) ram_gap) (Fin 3))
           (\<lambda>avg_gap.
             Inr \<lparr>can_run = True,
                  settings = (if float_ge avg_gap (Fin (1 / 2)) then ''Medium'' else ''Low''),
                  notes' = (if float_ge avg_gap (Fin (1 / 2))
                           then ''Your hardware is between minimum and recommended. Expect medium settings.''
                           else ''Your hardware meets minimum requirements. Expect low settings for smooth gameplay.''),
                  details = \<lparr>cpu_meets_min = cpu_min, cpu_meets_rec = cpu_rec,
                             gpu_meets_min = gpu_min, gpu_meets_rec = gpu_rec,
                             ram_meets_min = ram_min, ram_meets_rec = ram_rec,
                             user_scores = \<lparr>us_cpu = user_cpu, us_gpu = user_gpu,
                                            us_ram = user_ram\<rparr>\<rparr>\<rparr>)))))"

definition check_game_compatibility :: "user_hw \<Rightarrow> game_reqs \<Rightarrow> py_error + compat_result" where
  "check_game_compatibility user_hardware game_requirements =
     ebind (user_cpu_score user_hardware) (\<lambda>user_cpu.
       evaluate user_cpu (user_gpu_score user_hardware) (ram_gb user_hardware)
         game_requirements)"

subsection \<open>The tier order\<close>

text \<open>The total order Cannot Run < Low < Medium < High on the four labels.\<close>

definition tier_rank :: "string \<Rightarrow> nat" where
  "tier_rank s =
     (if s = ''Cannot Run'' then 0 else if s = ''Low'' then 1
      else if s = ''Medium'' then 2 else 3)"

subsection \<open>The documented VRAM bands\<close>

text \<open>
  The step function as the specification words it: at least 16 GB gives 20000, at
  least 12 gives 15000, at least 8 gives 12000, at least 6 gives 9000, at least 4
  gives 6000, anything else 3000.
\<close>

definition vram_band :: "int \<Rightarrow> int" where
  "vram_band v =
     (if 16 \<le> v then 20000 else if 12 \<le> v then 15000 else if 8 \<le> v then 12000
      else if 6 \<le> v then 9000 else if 4 \<le> v then 6000 else 3000)"

section \<open>Rounding to binary64\<close>

lemma rhe_bounds: "\<lfloor>x\<rfloor> \<le> round_half_even x \<and> round_half_even x \<le> \<lfloor>x\<rfloor> + 1"
  by (simp add: round_half_even_def Let_def)

lemma rhe_of_int: "round_half_even (of_int n) = n"
  by (simp add: round_half_even_def)

lemma rhe_mono:
  assumes "x \<le> y"
  shows "round_half_even x \<le> round_half_even y"
proof (cases "\<lfloor>x\<rfloor> = \<lfloor>y\<rfloor>")
  case True
  have "x - of_int \<lfloor>x\<rfloor> \<le> y - of_int \<lfloor>y\<rfloor>"
    using assms True by simp
  then show ?thesis
    unfolding round_half_even_def Let_def using True by auto
next
  case False
  then have "\<lfloor>x\<rfloor> < \<lfloor>y\<rfloor>"
    using floor_mono [OF assms] by linarith
  then show ?thesis
    using rhe_bounds [of x] rhe_bounds [of y] by linarith
qed

lemma bitlen_powi:
  assumes "0 < n"
  shows "(2::rat) powi (bitlen n - 1) \<le> of_int n" and "of_int n < (2::rat) powi bitlen n"
proof -
  have b: "1 \<le> bitlen n"
    using assms bitlen_eq_zero_iff [of n] bitlen_nonneg [of n] by linarith
  from bitlen_bounds [OF assms]
  have lo: "2 ^ nat (bitlen n - 1) \<le> n" and hi: "n < 2 ^ nat (bitlen n)"
    by simp_all
  have "(of_int (2 ^ nat (bitlen n - 1)) :: rat) \<le> of_int n"
    using lo of_int_le_iff by blast
  then show "(2::rat) powi (bitlen n - 1) \<le> of_int n"
    using b by (simp add: power_int_def)
  have "(of_int n :: rat) < of_int (2 ^ nat (bitlen n))"
    using hi of_int_less_iff by blast
  then show "of_int n < (2::rat) powi bitlen n"
    using b by (simp add: power_int_def)
qed

lemma ilog2_bounds:
  assumes "0 < x"
  shows "2 powi ilog2 x \<le> x" and "x < 2 powi (ilog2 x + 1)"
proof -
  obtain n d where q: "quotient_of x = (n, d)"
    by force
  have d: "0 < d"
    using quotient_of_denom_pos [OF q] .
  have x: "x = of_int n / of_int d"
    using quotient_of_div [OF q] .
  have n: "0 < n"
    using assms x d by (simp add: zero_less_divide_iff)
  define k where "k = bitlen n - bitlen d"
  note nb = bitlen_powi [OF n] and db = bitlen_powi [OF d]
  have dpos: "(0::rat) < of_int d"
    using d by simp
  have "2 powi (k - 1) * of_int d < (2::rat) powi (k - 1) * 2 powi bitlen d"
    using db(2) by (intro mult_strict_left_mono) simp_all
  also have "\<dots> = 2 powi (bitlen n - 1)"
    by (simp add: k_def flip: power_int_add)
  also have "\<dots> \<le> of_int n"
    using nb(1) .
  finally have lo: "2 powi (k - 1) < x"
    using dpos by (simp add: x pos_less_divide_eq)
  have "of_int n < (2::rat) powi bitlen n"
    using nb(2) .
  also have "\<dots> = 2 powi (k + 1) * 2 powi (bitlen d - 1)"
    by (simp add: k_def flip: power_int_add)
  also have "\<dots> \<le> 2 powi (k + 1) * of_int d"
    using db(1) by (intro mult_left_mono) simp_all
  finally have hi: "x < 2 powi (k + 1)"
    using dpos by (simp add: x pos_divide_less_eq)
  have il: "ilog2 x = (if 2 powi k \<le> x then k else k - 1)"
    by (simp add: ilog2_def q k_def Let_def)
  show "2 powi ilog2 x \<le> x"
    using lo by (simp add: il)
  show "x < 2 powi (ilog2 x + 1)"
    using hi by (auto simp: il not_le)
qed

lemma ilog2_mono:
  assumes "0 < x" and "x \<le> y"
  shows "ilog2 x \<le> ilog2 y"
proof (rule ccontr)
  assume "\<not> ilog2 x \<le> ilog2 y"
  then have "ilog2 y + 1 \<le> ilog2 x"
    by simp
  then have "(2::rat) powi (ilog2 y + 1) \<le> 2 powi ilog2 x"
    by (intro power_int_increasing) simp_all
  moreover have "y < 2 powi (ilog2 y + 1)"
    using assms by (intro ilog2_bounds) simp
  moreover have "2 powi ilog2 x \<le> x"
    using assms by (intro ilog2_bounds)
  ultimately show False
    using assms by linarith
qed

lemma ulp_exp_mono:
  assumes "0 < x" and "x \<le> y"
  shows "ulp_exp x \<le> ulp_exp y"
  using ilog2_mono [of x y] assms by (simp add: ulp_exp_def)

lemma round64_pos:
  "0 < x \<Longrightarrow> round64 x = of_int (round_half_even (x / 2 powi ulp_exp x)) * 2 powi ulp_exp x"
  by (simp add: round64_def)

lemma round64_le_pow:
  assumes "0 < x" and "x \<le> 2 powi m" and "ulp_exp x \<le> m"
  shows "round64 x \<le> 2 powi m"
proof -
  define t where "t = ulp_exp x"
  have p: "(0::rat) < 2 powi t"
    by simp
  have "x / 2 powi t \<le> 2 powi m / 2 powi t"
    using assms(2) p by (simp add: divide_right_mono)
  also have "\<dots> = 2 powi (m - t)"
    by (simp add: power_int_diff)
  also have "\<dots> = of_int (2 ^ nat (m - t))"
    using assms(3) by (simp add: t_def power_int_def)
  finally have "round_half_even (x / 2 powi t) \<le> 2 ^ nat (m - t)"
    using rhe_mono rhe_of_int by metis
  then have "(of_int (round_half_even (x / 2 powi t)) :: rat) \<le> of_int (2 ^ nat (m - t))"
    using of_int_le_iff by blast
  also have "\<dots> = 2 powi (m - t)"
    using assms(3) by (simp add: t_def power_int_def)
  finally have "(of_int (round_half_even (x / 2 powi t)) :: rat) * 2 powi t \<le> 2 powi (m - t) * 2 powi t"
    using p by (simp add: mult_right_mono)
  also have "\<dots> = 2 powi m"
    by (simp flip: power_int_add)
  finally show ?thesis
    using assms(1) by (simp add: round64_pos t_def)
qed

lemma round64_ge_pow:
  assumes "0 < x" and "2 powi m \<le> x" and "ulp_exp x \<le> m"
  shows "2 powi m \<le> round64 x"
proof -
  define t where "t = ulp_exp x"
  have p: "(0::rat) < 2 powi t"
    by simp
  have "(of_int (2 ^ nat (m - t)) :: rat) = 2 powi (m - t)"
    using assms(3) by (simp add: t_def power_int_def)
  also have "\<dots> = 2 powi m / 2 powi t"
    by (simp add: power_int_diff)
  also have "\<dots> \<le> x / 2 powi t"
    using assms(2) p by (simp add: divide_right_mono)
  finally have "2 ^ nat (m - t) \<le> round_half_even (x / 2 powi t)"
    using rhe_mono rhe_of_int by metis
  then have a: "(of_int (2 ^ nat (m - t)) :: rat) \<le> of_int (round_half_even (x / 2 powi t))"
    using of_int_le_iff by blast
  have b: "(of_int (2 ^ nat (m - t)) :: rat) = 2 powi (m - t)"
    using assms(3) by (simp add: t_def power_int_def)
  have c: "(2::rat) powi (m - t) \<le> of_int (round_half_even (x / 2 powi t))"
    using a unfolding b .
  have "(2::rat) powi m = 2 powi (m - t) * 2 powi t"
    by (simp flip: power_int_add)
  also have "\<dots> \<le> of_int (round_half_even (x / 2 powi t)) * 2 powi t"
    using c p by (intro mult_right_mono) simp_all
  also have "\<dots> = round64 x"
    using assms(1) by (simp add: round64_pos t_def)
  finally show ?thesis .
qed

lemma round64_nonneg:
  assumes "0 \<le> x"
  shows "0 \<le> round64 x"
proof (cases "x = 0")
  case True
  then show ?thesis by (simp add: round64_def)
next
  case False
  then have x: "0 < x" using assms by simp
  have "0 \<le> x / 2 powi ulp_exp x"
    using x by simp
  then have "0 \<le> \<lfloor>x / 2 powi ulp_exp x\<rfloor>"
    by simp
  then have "0 \<le> round_half_even (x / 2 powi ulp_exp x)"
    using rhe_bounds [of "x / 2 powi ulp_exp x"] by linarith
  then show ?thesis
    using x by (simp add: round64_pos)
qed

lemma round64_mono_pos:
  assumes "0 < x" and "x \<le> y"
  shows "round64 x \<le> round64 y"
proof -
  have y: "0 < y" using assms by simp
  have le: "ulp_exp x \<le> ulp_exp y"
    using assms by (rule ulp_exp_mono)
  show ?thesis
  proof (cases "ulp_exp x = ulp_exp y")
    case True
    have "x / 2 powi ulp_exp y \<le> y / 2 powi ulp_exp y"
      using assms(2) by (simp add: divide_right_mono)
    then have "round_half_even (x / 2 powi ulp_exp y) \<le> round_half_even (y / 2 powi ulp_exp y)"
      by (rule rhe_mono)
    then have "(of_int (round_half_even (x / 2 powi ulp_exp y)) :: rat)
        \<le> of_int (round_half_even (y / 2 powi ulp_exp y))"
      using of_int_le_iff by blast
    then show ?thesis
      using assms(1) y True by (simp add: round64_pos mult_right_mono)
  next
    case False
    with le have lt: "ulp_exp x < ulp_exp y" by simp
    define m where "m = ilog2 y"
    have ty: "ulp_exp y = m - 52"
      using lt y by (auto simp: ulp_exp_def m_def max_def split: if_splits)
    have "ilog2 x - 52 \<le> ulp_exp x"
      using assms(1) by (simp add: ulp_exp_def)
    with lt ty have ex: "ilog2 x + 1 \<le> m" by linarith
    have "x < 2 powi (ilog2 x + 1)"
      using assms(1) by (rule ilog2_bounds)
    also have "\<dots> \<le> 2 powi m"
      using ex by (intro power_int_increasing) simp_all
    finally have xm: "x \<le> 2 powi m" by simp
    have "round64 x \<le> 2 powi m"
      using assms(1) xm lt ty by (intro round64_le_pow) simp_all
    also have "\<dots> \<le> round64 y"
      using y ilog2_bounds(1) [OF y] ty by (intro round64_ge_pow) (simp_all add: m_def)
    finally show ?thesis .
  qed
qed

lemma round64_mono:
  assumes "0 \<le> x" and "x \<le> y"
  shows "round64 x \<le> round64 y"
proof (cases "x = 0")
  case True
  then show ?thesis
    using assms round64_nonneg [of y] by (simp add: round64_def)
next
  case False
  then show ?thesis
    using assms by (intro round64_mono_pos) simp_all
qed

lemma round64_dyadic:
  assumes k: "\<bar>k\<bar> < 2 ^ 53" and j: "- 1074 \<le> j"
  shows "round64 (of_int k * 2 powi j) = of_int k * 2 powi j"
proof (cases "k = 0")
  case True
  then show ?thesis by (simp add: round64_def)
next
  case False
  define x :: rat where "x = of_int k * 2 powi j"
  define t where "t = ulp_exp x"
  have x0: "x \<noteq> 0"
    using False by (simp add: x_def)
  then have ax: "0 < \<bar>x\<bar>"
    by simp
  have "(of_int \<bar>k\<bar> :: rat) < of_int (2 ^ 53)"
    using k of_int_less_iff by blast
  then have "\<bar>x\<bar> < 2 ^ 53 * 2 powi j"
    by (simp add: x_def abs_mult)
  also have "\<dots> = 2 powi (53 + j)"
    by (simp add: power_int_add)
  finally have hi: "\<bar>x\<bar> < 2 powi (53 + j)" .
  have "ilog2 \<bar>x\<bar> < 53 + j"
  proof (rule ccontr)
    assume "\<not> ilog2 \<bar>x\<bar> < 53 + j"
    then have "(2::rat) powi (53 + j) \<le> 2 powi ilog2 \<bar>x\<bar>"
      by (intro power_int_increasing) simp_all
    also have "\<dots> \<le> \<bar>x\<bar>"
      using ax by (rule ilog2_bounds)
    finally show False
      using hi by simp
  qed
  then have tj: "t \<le> j"
    using j by (simp add: t_def ulp_exp_def)
  have "x / 2 powi t = of_int k * 2 powi (j - t)"
    by (simp add: x_def power_int_diff)
  also have "\<dots> = of_int (k * 2 ^ nat (j - t))"
    using tj by (simp add: power_int_def)
  finally have "round_half_even (x / 2 powi t) = k * 2 ^ nat (j - t)"
    by (simp only: rhe_of_int)
  then have "round64 x = of_int (k * 2 ^ nat (j - t)) * 2 powi t"
    using x0 by (simp add: round64_def t_def)
  also have "\<dots> = of_int k * (2 powi (j - t) * 2 powi t)"
    using tj by (simp add: power_int_def)
  also have "\<dots> = x"
    by (simp add: x_def flip: power_int_add)
  finally show ?thesis
    by (simp add: x_def)
qed

lemma round64_int: "\<bar>k\<bar> < 2 ^ 53 \<Longrightarrow> round64 (of_int k) = of_int k"
  using round64_dyadic [of k 0] by simp

lemma to_float_dyadic:
  assumes "\<bar>k\<bar> < 2 ^ 53" and "- 1074 \<le> j" and "j \<le> 970"
  shows "to_float (of_int k * 2 powi j) = Fin (of_int k * 2 powi j)"
proof -
  have "(of_int \<bar>k\<bar> :: rat) < of_int (2 ^ 53)"
    using assms(1) of_int_less_iff by blast
  then have "\<bar>of_int k * 2 powi j :: rat\<bar> < 2 ^ 53 * 2 powi j"
    by (simp add: abs_mult)
  also have "\<dots> = 2 powi (53 + j)"
    by (simp add: power_int_add)
  also have "\<dots> \<le> 2 powi 1024"
    using assms(3) by (intro power_int_increasing) simp_all
  finally have "\<bar>of_int k * 2 powi j :: rat\<bar> < 2 ^ 1024"
    by simp
  then show ?thesis
    using assms by (simp add: to_float_def round64_dyadic abs_less_iff)
qed

section \<open>Order and arithmetic on floats\<close>

lemma round64_1: "round64 1 = 1"
  using round64_int [of 1] by simp

lemma to_float_not_NaN: "to_float x \<noteq> NaN"
  by (simp add: to_float_def Let_def)

lemma float_ge_PInf_to_float: "float_ge PInf (to_float x)"
  by (simp add: to_float_def Let_def)

lemma to_float_nonneg:
  assumes "0 \<le> x"
  shows "to_float x = PInf \<or> to_float x = Fin (round64 x) \<and> 0 \<le> round64 x"
  using round64_nonneg [OF assms] by (auto simp: to_float_def Let_def)

lemma to_float_mono:
  assumes "0 \<le> x" and "x \<le> y"
  shows "float_ge (to_float x) (Fin 0) \<and> float_ge (to_float y) (to_float x)"
proof -
  have "0 \<le> round64 x" and "round64 x \<le> round64 y"
    using assms by (simp_all add: round64_nonneg round64_mono)
  then show ?thesis
    by (auto simp: to_float_def Let_def)
qed

lemma float_ge_nonneg_cases:
  assumes "float_ge a (Fin 0)" and "float_ge a' a"
  shows "(\<exists>x x'. a = Fin x \<and> a' = Fin x' \<and> 0 \<le> x \<and> x \<le> x') \<or>
         (\<exists>x. a = Fin x \<and> 0 \<le> x \<and> a' = PInf) \<or> (a = PInf \<and> a' = PInf)"
  using assms by (cases a; cases a') simp_all

lemma float_ge_trans:
  assumes "float_ge c b" and "float_ge b a"
  shows "float_ge c a"
  using assms by (cases a; cases b; cases c) simp_all

lemma to_float_ge_zero: "0 \<le> x \<Longrightarrow> float_ge (to_float x) (Fin 0)"
  using to_float_mono [of x x] by simp

lemma to_float_ge: "0 \<le> x \<Longrightarrow> x \<le> y \<Longrightarrow> float_ge (to_float y) (to_float x)"
  using to_float_mono [of x y] by simp

lemma float_add_mono:
  assumes "float_ge a (Fin 0)" and "float_ge a' a"
    and "float_ge b (Fin 0)" and "float_ge b' b"
  shows "float_ge (float_add a b) (Fin 0) \<and> float_ge (float_add a' b') (float_add a b)"
  using float_ge_nonneg_cases [OF assms(1,2)] float_ge_nonneg_cases [OF assms(3,4)]
  by (elim disjE exE conjE)
     (simp_all add: to_float_ge_zero to_float_ge float_ge_PInf_to_float)

lemma float_div3_mono:
  assumes "float_ge a (Fin 0)" and "float_ge a' a"
  shows "\<exists>v v'. float_truediv a (Fin 3) = Inr v \<and> float_truediv a' (Fin 3) = Inr v' \<and>
           float_ge v (Fin 0) \<and> float_ge v' v"
  using float_ge_nonneg_cases [OF assms]
  by (elim disjE exE conjE)
     (simp_all add: to_float_ge_zero to_float_ge float_ge_PInf_to_float float_inf_def
        float_sgn_def divide_right_mono)

lemma gap_zero_denominator: "gap u mn mn = Inl ZeroDivisionError"
  by (simp add: gap_def int_truediv_def)

lemma gap_cases:
  assumes "mn < rc" and "mn \<le> u"
  shows "(\<exists>r. gap u mn rc = Inr (Fin r) \<and> 0 \<le> r \<and> (u \<le> rc \<longrightarrow> r \<le> 1)) \<or>
         (rc < u \<and> gap u mn rc = Inl OverflowError)"
proof -
  define x :: rat where "x = of_int (u - mn) / of_int (rc - mn)"
  have x0: "0 \<le> x"
    using assms by (simp add: x_def)
  have g: "gap u mn rc = (case to_float x of Fin r \<Rightarrow> Inr (Fin r) | _ \<Rightarrow> Inl OverflowError)"
    using assms by (simp add: gap_def int_truediv_def x_def)
  show ?thesis
  proof (cases "u \<le> rc")
    case True
    then have "x \<le> 1"
      using assms by (simp add: x_def)
    then have "round64 x \<le> 1"
      using round64_mono [OF x0, of 1] by (simp add: round64_1)
    moreover have "0 \<le> round64 x"
      using x0 by (rule round64_nonneg)
    ultimately show ?thesis
      using True by (simp add: g to_float_def Let_def)
  next
    case False
    then show ?thesis
      using to_float_nonneg [OF x0] by (auto simp: g)
  qed
qed

lemma gap_mono:
  assumes "mn < rc" and "mn \<le> u" and "u \<le> u'"
    and "gap u mn rc = Inr a" and "gap u' mn rc = Inr a'"
  shows "float_ge a (Fin 0) \<and> float_ge a' a"
proof -
  define x :: rat where "x = of_int (u - mn) / of_int (rc - mn)"
  define x' :: rat where "x' = of_int (u' - mn) / of_int (rc - mn)"
  have x0: "0 \<le> x" and xx: "x \<le> x'"
    using assms(1-3) by (simp_all add: x_def x'_def divide_right_mono)
  have "gap u mn rc = (case to_float x of Fin r \<Rightarrow> Inr (Fin r) | _ \<Rightarrow> Inl OverflowError)"
    using assms(1) by (simp add: gap_def int_truediv_def x_def)
  with assms(4) have a: "a = to_float x"
    by (simp split: pyfloat.splits)
  have "gap u' mn rc = (case to_float x' of Fin r \<Rightarrow> Inr (Fin r) | _ \<Rightarrow> Inl OverflowError)"
    using assms(1) by (simp add: gap_def int_truediv_def x'_def)
  with assms(5) have a': "a' = to_float x'"
    by (simp split: pyfloat.splits)
  show ?thesis
    using to_float_mono [OF x0 xx] by (simp add: a a')
qed

section \<open>The branches of the evaluation\<close>

lemma to_float_values:
  "to_float 0 = Fin 0"
  "to_float (1 / 4) = Fin (1 / 4)"
  "to_float (1 / 2) = Fin (1 / 2)"
  "to_float (3 / 4) = Fin (3 / 4)"
  "to_float (3 / 2) = Fin (3 / 2)"
  "to_float 2 = Fin 2"
  "to_float (9 / 4) = Fin (9 / 4)"
  "to_float (- (3 / 4)) = Fin (- (3 / 4))"
  "to_float (- (3 / 2)) = Fin (- (3 / 2))"
  using to_float_dyadic [of 0 0] to_float_dyadic [of 1 "- 2"] to_float_dyadic [of 1 "- 1"]
    to_float_dyadic [of 3 "- 2"] to_float_dyadic [of 3 "- 1"] to_float_dyadic [of 2 0]
    to_float_dyadic [of 9 "- 2"] to_float_dyadic [of "- 3" "- 2"]
    to_float_dyadic [of "- 3" "- 1"]
  by simp_all

lemma tier_rank_values:
  "tier_rank ''Cannot Run'' = 0" "tier_rank ''Low'' = 1"
  "tier_rank ''Medium'' = 2" "tier_rank ''High'' = 3"
  by (simp_all add: tier_rank_def)

lemma tier_rank_le_3: "tier_rank s \<le> 3"
  by (simp add: tier_rank_def)

lemma evaluate_below_settings:
  assumes "\<not> (cpu_score (minimum g) \<le> c \<and> gpu_score (minimum g) \<le> gp \<and>
     req_ram_gb (minimum g) \<le> r)"
    and "evaluate c gp r g = Inr res"
  shows "settings res = ''Cannot Run''" and "can_run res = False"
  using assms by (auto simp: evaluate_def Let_def ebind_def split: sum.splits if_splits)

lemma evaluate_high:
  assumes "cpu_score (minimum g) \<le> c" and "gpu_score (minimum g) \<le> gp"
    and "req_ram_gb (minimum g) \<le> r"
    and "cpu_score (recommended g) \<le> c" and "gpu_score (recommended g) \<le> gp"
    and "req_ram_gb (recommended g) \<le> r"
  shows "\<exists>res. evaluate c gp r g = Inr res \<and> settings res = ''High'' \<and> can_run res = True"
  using assms by (simp add: evaluate_def Let_def)

lemma evaluate_between:
  assumes "cpu_score (minimum g) \<le> c" and "gpu_score (minimum g) \<le> gp"
    and "req_ram_gb (minimum g) \<le> r"
    and "\<not> (cpu_score (recommended g) \<le> c \<and> gpu_score (recommended g) \<le> gp \<and>
       req_ram_gb (recommended g) \<le> r)"
  shows "map_sum id settings (evaluate c gp r g) =
     ebind (gap c (cpu_score (minimum g)) (cpu_score (recommended g))) (\<lambda>cpu_gap.
     ebind (gap gp (gpu_score (minimum g)) (gpu_score (recommended g))) (\<lambda>gpu_gap.
     ebind (gap r (req_ram_gb (minimum g)) (req_ram_gb (recommended g))) (\<lambda>ram_gap.
     ebind (float_truediv (float_add (float_add cpu_gap gpu_gap) ram_gap) (Fin 3)) (\<lambda>avg_gap.
       Inr (if float_ge avg_gap (Fin (1 / 2)) then ''Medium'' else ''Low'')))))"
  using assms by (auto simp: evaluate_def Let_def ebind_def split: sum.splits)

lemma evaluate_between_Inr:
  assumes "cpu_score (minimum g) \<le> c" and "gpu_score (minimum g) \<le> gp"
    and "req_ram_gb (minimum g) \<le> r"
    and "\<not> (cpu_score (recommended g) \<le> c \<and> gpu_score (recommended g) \<le> gp \<and>
       req_ram_gb (recommended g) \<le> r)"
    and "evaluate c gp r g = Inr res"
  shows "\<exists>a b d v.
     gap c (cpu_score (minimum g)) (cpu_score (recommended g)) = Inr a \<and>
     gap gp (gpu_score (minimum g)) (gpu_score (recommended g)) = Inr b \<and>
     gap r (req_ram_gb (minimum g)) (req_ram_gb (recommended g)) = Inr d \<and>
     float_truediv (float_add (float_add a b) d) (Fin 3) = Inr v \<and>
     settings res = (if float_ge v (Fin (1 / 2)) then ''Medium'' else ''Low'')"
proof -
  have "map_sum id settings (evaluate c gp r g) = Inr (settings res)"
    using assms(5) by simp
  then show ?thesis
    unfolding evaluate_between [OF assms(1-4)]
    by (auto simp: ebind_def split: sum.splits)
qed

lemma evaluate_mono:
  assumes wf: "cpu_score (minimum g) \<le> cpu_score (recommended g)"
      "gpu_score (minimum g) \<le> gpu_score (recommended g)"
      "req_ram_gb (minimum g) \<le> req_ram_gb (recommended g)"
    and le: "c \<le> c'" "gp \<le> gp'" "r \<le> r'"
    and ev: "evaluate c gp r g = Inr res" and ev': "evaluate c' gp' r' g = Inr res'"
  shows "tier_rank (settings res) \<le> tier_rank (settings res')"
proof (cases "cpu_score (minimum g) \<le> c \<and> gpu_score (minimum g) \<le> gp \<and>
     req_ram_gb (minimum g) \<le> r")
  case False
  then show ?thesis
    using evaluate_below_settings(1) [OF _ ev] by (simp add: tier_rank_values)
next
  case mm: True
  then have mm': "cpu_score (minimum g) \<le> c'" "gpu_score (minimum g) \<le> gp'"
      "req_ram_gb (minimum g) \<le> r'"
    using le by simp_all
  show ?thesis
  proof (cases "cpu_score (recommended g) \<le> c' \<and> gpu_score (recommended g) \<le> gp' \<and>
       req_ram_gb (recommended g) \<le> r'")
    case True
    then have "settings res' = ''High''"
      using evaluate_high [of g c' gp' r'] mm' ev' by auto
    then show ?thesis
      using tier_rank_le_3 [of "settings res"] by (simp add: tier_rank_values)
  next
    case nr': False
    then have nr: "\<not> (cpu_score (recommended g) \<le> c \<and> gpu_score (recommended g) \<le> gp \<and>
         req_ram_gb (recommended g) \<le> r)"
      using le by auto
    from evaluate_between_Inr [OF _ _ _ nr ev] mm
    obtain a b d v where
      a: "gap c (cpu_score (minimum g)) (cpu_score (recommended g)) = Inr a" and
      b: "gap gp (gpu_score (minimum g)) (gpu_score (recommended g)) = Inr b" and
      d: "gap r (req_ram_gb (minimum g)) (req_ram_gb (recommended g)) = Inr d" and
      v: "float_truediv (float_add (float_add a b) d) (Fin 3) = Inr v" and
      s: "settings res = (if float_ge v (Fin (1 / 2)) then ''Medium'' else ''Low'')"
      by blast
    from evaluate_between_Inr [OF mm' nr' ev']
    obtain a' b' d' v' where
      a': "gap c' (cpu_score (minimum g)) (cpu_score (recommended g)) = Inr a'" and
      b': "gap gp' (gpu_score (minimum g)) (gpu_score (recommended g)) = Inr b'" and
      d': "gap r' (req_ram_gb (minimum g)) (req_ram_gb (recommended g)) = Inr d'" and
      v': "float_truediv (float_add (float_add a' b') d') (Fin 3) = Inr v'" and
      s': "settings res' = (if float_ge v' (Fin (1 / 2)) then ''Medium'' else ''Low'')"
      by blast
    have strict: "cpu_score (minimum g) < cpu_score (recommended g)"
        "gpu_score (minimum g) < gpu_score (recommended g)"
        "req_ram_gb (minimum g) < req_ram_gb (recommended g)"
      using wf a b d gap_zero_denominator
      by (force simp: order_le_less)+
    have ga: "float_ge a (Fin 0) \<and> float_ge a' a"
      using gap_mono [OF strict(1) _ le(1) a a'] mm by simp
    have gb: "float_ge b (Fin 0) \<and> float_ge b' b"
      using gap_mono [OF strict(2) _ le(2) b b'] mm by simp
    have gd: "float_ge d (Fin 0) \<and> float_ge d' d"
      using gap_mono [OF strict(3) _ le(3) d d'] mm by simp
    have s1: "float_ge (float_add a b) (Fin 0) \<and> float_ge (float_add a' b') (float_add a b)"
      using ga gb by (intro float_add_mono) simp_all
    have s2: "float_ge (float_add (float_add a b) d) (Fin 0) \<and>
        float_ge (float_add (float_add a' b') d') (float_add (float_add a b) d)"
      using s1 gd by (intro float_add_mono) simp_all
    have vv: "float_ge v' v"
      using float_div3_mono [of "float_add (float_add a b) d" "float_add (float_add a' b') d'"]
        s2 v v' by auto
    show ?thesis
    proof (cases "float_ge v (Fin (1 / 2))")
      case True
      then have "float_ge v' (Fin (1 / 2))"
        using vv float_ge_trans by blast
      then show ?thesis
        using True by (simp add: s s')
    next
      case False
      then show ?thesis
        by (simp add: s s' tier_rank_values)
    qed
  qed
qed

section \<open>The check on resolved scores\<close>

lemma check_with_scores:
  assumes "c_score (cpu u) = Some c" and "g_score (gpu u) = Some gp"
  shows "check_game_compatibility u g = evaluate c gp (ram_gb u) g"
  using assms
  by (simp add: check_game_compatibility_def user_cpu_score_def user_gpu_score_def ebind_def)

lemma check_resolved:
  assumes "user_cpu_score u = Inr c"
  shows "check_game_compatibility u g = evaluate c (user_gpu_score u) (ram_gb u) g"
  using assms by (simp add: check_game_compatibility_def ebind_def)

lemma map_sum_settings_Inr:
  assumes "map_sum id settings x = Inr s"
  shows "\<exists>res. x = Inr res \<and> settings res = s"
  using assms by (cases x) auto

lemma map_sum_settings_Inl:
  assumes "map_sum id settings x = Inl e"
  shows "x = Inl e"
  using assms by (cases x) auto

lemma evaluate_between_returns:
  assumes "cpu_score (minimum g) \<le> c" and "gpu_score (minimum g) \<le> gp"
    and "req_ram_gb (minimum g) \<le> r"
    and "\<not> (cpu_score (recommended g) \<le> c \<and> gpu_score (recommended g) \<le> gp \<and>
       req_ram_gb (recommended g) \<le> r)"
    and "gap c (cpu_score (minimum g)) (cpu_score (recommended g)) = Inr a"
    and "gap gp (gpu_score (minimum g)) (gpu_score (recommended g)) = Inr b"
    and "gap r (req_ram_gb (minimum g)) (req_ram_gb (recommended g)) = Inr d"
  shows "\<exists>res. evaluate c gp r g = Inr res"
proof -
  obtain v where "float_truediv (float_add (float_add a b) d) (Fin 3) = Inr v"
    by (cases "float_add (float_add a b) d") simp_all
  then have "map_sum id settings (evaluate c gp r g) =
      Inr (if float_ge v (Fin (1 / 2)) then ''Medium'' else ''Low'')"
    unfolding evaluate_between [OF assms(1-4)] by (simp add: assms(5-7) ebind_def)
  then show ?thesis
    using map_sum_settings_Inr by blast
qed

lemma gap_returns:
  assumes "mn < rc" and "mn \<le> u" and "u - mn \<le> 2 ^ 1023"
  shows "\<exists>x. gap u mn rc = Inr (Fin x)"
proof -
  define x :: rat where "x = of_int (u - mn) / of_int (rc - mn)"
  have x0: "0 \<le> x"
    using assms by (simp add: x_def)
  have d1: "(1::rat) \<le> of_int (rc - mn)"
    using assms(1) by simp
  have "x \<le> of_int (u - mn) / 1"
    unfolding x_def using d1 assms(2) by (intro divide_left_mono) simp_all
  then have "x \<le> of_int (u - mn)"
    by simp
  also have "\<dots> \<le> of_int (2 ^ 1023)"
    using assms(3) of_int_le_iff by blast
  finally have xb: "x \<le> 2 powi 1023"
    by simp
  have rb: "round64 x \<le> 2 powi 1023"
  proof (cases "x = 0")
    case True
    then show ?thesis by (simp add: round64_def)
  next
    case False
    then have xp: "0 < x" using x0 by simp
    have "ilog2 x \<le> 1023"
    proof (rule ccontr)
      assume "\<not> ilog2 x \<le> 1023"
      then have "(2::rat) powi 1024 \<le> 2 powi ilog2 x"
        by (intro power_int_increasing) simp_all
      also have "\<dots> \<le> x"
        using xp by (rule ilog2_bounds)
      finally show False
        using xb by simp
    qed
    then have "ulp_exp x \<le> 1023"
      using xp by (simp add: ulp_exp_def)
    with xp xb show ?thesis
      by (rule round64_le_pow)
  qed
  have "0 \<le> round64 x"
    using x0 by (rule round64_nonneg)
  with rb have "to_float x = Fin (round64 x)"
    by (simp add: to_float_def Let_def)
  then show ?thesis
    using assms(1) by (simp add: gap_def int_truediv_def x_def)
qed

lemma str_int_within_limit:
  "\<bar>i\<bar> < 10 ^ int_max_str_digits \<Longrightarrow> str_int i = Inr (digits_int i)"
  by (simp add: str_int_def)

lemma str_int_beyond_limit:
  "10 ^ int_max_str_digits \<le> \<bar>i\<bar> \<Longrightarrow> str_int i = Inl ValueError"
  by (simp add: str_int_def)

lemma small_below_limit: "(100000::int) \<le> 10 ^ int_max_str_digits"
proof -
  have "(10::int) ^ 5 \<le> 10 ^ int_max_str_digits"
    by (rule power_increasing) (simp_all add: int_max_str_digits_def)
  then show ?thesis
    by simp
qed

lemma str_int_small: "\<bar>i\<bar> < 100000 \<Longrightarrow> str_int i = Inr (digits_int i)"
  using small_below_limit by (intro str_int_within_limit) simp

lemma evaluate_below_minimum:
  assumes "\<not> (cpu_score (minimum g) \<le> c \<and> gpu_score (minimum g) \<le> gp \<and>
       req_ram_gb (minimum g) \<le> r)"
    and "cpu_score (minimum g) \<le> c \<or>
       \<bar>c\<bar> < 10 ^ int_max_str_digits \<and> \<bar>cpu_score (minimum g)\<bar> < 10 ^ int_max_str_digits"
    and "gpu_score (minimum g) \<le> gp \<or>
       \<bar>gp\<bar> < 10 ^ int_max_str_digits \<and> \<bar>gpu_score (minimum g)\<bar> < 10 ^ int_max_str_digits"
    and "req_ram_gb (minimum g) \<le> r \<or>
       \<bar>r\<bar> < 10 ^ int_max_str_digits \<and> \<bar>req_ram_gb (minimum g)\<bar> < 10 ^ int_max_str_digits"
  shows "\<exists>res. evaluate c gp r g = Inr res \<and> can_run res = False \<and>
     settings res = ''Cannot Run'' \<and>
     notes' res = ''Hardware below minimum requirements. Bottlenecks: '' @
       join '', '' (map snd (filter (\<lambda>e. \<not> fst e)
         [(cpu_score (minimum g) \<le> c,
           ''CPU (yours: '' @ digits_int c @ '', need: ''
             @ digits_int (cpu_score (minimum g)) @ '')''),
          (gpu_score (minimum g) \<le> gp,
           ''GPU (yours: '' @ digits_int gp @ '', need: ''
             @ digits_int (gpu_score (minimum g)) @ '')''),
          (req_ram_gb (minimum g) \<le> r,
           ''RAM (yours: '' @ digits_int r @ ''GB, need: ''
             @ digits_int (req_ram_gb (minimum g)) @ ''GB)'')]))"
proof -
  have e1: "cpu_score (minimum g) \<le> c \<or>
      str_int c = Inr (digits_int c) \<and>
      str_int (cpu_score (minimum g)) = Inr (digits_int (cpu_score (minimum g)))"
    using assms(2) by (auto simp: str_int_within_limit)
  have e2: "gpu_score (minimum g) \<le> gp \<or>
      str_int gp = Inr (digits_int gp) \<and>
      str_int (gpu_score (minimum g)) = Inr (digits_int (gpu_score (minimum g)))"
    using assms(3) by (auto simp: str_int_within_limit)
  have e3: "req_ram_gb (minimum g) \<le> r \<or>
      str_int r = Inr (digits_int r) \<and>
      str_int (req_ram_gb (minimum g)) = Inr (digits_int (req_ram_gb (minimum g)))"
    using assms(4) by (auto simp: str_int_within_limit)
  from assms(1) e1 e2 e3 show ?thesis
    by (auto simp: evaluate_def Let_def ebind_def)
qed

lemma evaluate_returns:
  assumes "cpu_score (minimum g) < cpu_score (recommended g)"
    and "gpu_score (minimum g) < gpu_score (recommended g)"
    and "req_ram_gb (minimum g) < req_ram_gb (recommended g)"
    and "c - cpu_score (minimum g) \<le> 2 ^ 1023"
    and "gp - gpu_score (minimum g) \<le> 2 ^ 1023"
    and "r - req_ram_gb (minimum g) \<le> 2 ^ 1023"
    and "\<bar>c\<bar> < 10 ^ int_max_str_digits" and "\<bar>gp\<bar> < 10 ^ int_max_str_digits"
    and "\<bar>r\<bar> < 10 ^ int_max_str_digits"
    and "\<bar>cpu_score (minimum g)\<bar> < 10 ^ int_max_str_digits"
    and "\<bar>gpu_score (minimum g)\<bar> < 10 ^ int_max_str_digits"
    and "\<bar>req_ram_gb (minimum g)\<bar> < 10 ^ int_max_str_digits"
  shows "\<exists>res. evaluate c gp r g = Inr res"
proof (cases "cpu_score (minimum g) \<le> c \<and> gpu_score (minimum g) \<le> gp \<and>
     req_ram_gb (minimum g) \<le> r")
  case False
  then show ?thesis
    using evaluate_below_minimum [of g c gp r] assms(7-12) by blast
next
  case mm: True
  show ?thesis
  proof (cases "cpu_score (recommended g) \<le> c \<and> gpu_score (recommended g) \<le> gp \<and>
       req_ram_gb (recommended g) \<le> r")
    case True
    then show ?thesis
      using evaluate_high [of g c gp r] mm by auto
  next
    case False
    obtain a b d where
      "gap c (cpu_score (minimum g)) (cpu_score (recommended g)) = Inr (Fin a)"
      "gap gp (gpu_score (minimum g)) (gpu_score (recommended g)) = Inr (Fin b)"
      "gap r (req_ram_gb (minimum g)) (req_ram_gb (recommended g)) = Inr (Fin d)"
      using gap_returns [OF assms(1) _ assms(4)] gap_returns [OF assms(2) _ assms(5)]
        gap_returns [OF assms(3) _ assms(6)] mm
      by blast
    with mm False show ?thesis
      by (intro evaluate_between_returns) simp_all
  qed
qed

lemma digits_int_values:
  "digits_int 10000 = ''10000''" "digits_int 16000 = ''16000''" "digits_int 6000 = ''6000''"
  "digits_int 9000 = ''9000''" "digits_int 4 = ''4''" "digits_int 8 = ''8''"
  by (simp_all add: digits_int_def str_nat.simps)

lemma to_float_int_values:
  "to_float 6 = Fin 6" "to_float 21 = Fin 21" "to_float 1000 = Fin 1000"
  "to_float 21000 = Fin 21000"
  using to_float_dyadic [of 6 0] to_float_dyadic [of 21 0] to_float_dyadic [of 1000 0]
    to_float_dyadic [of 21000 0]
  by simp_all

section \<open>Properties of the resolver\<close>

lemma CPU_BENCHMARK_DB_distinct: "distinct (map fst CPU_BENCHMARK_DB)"
  unfolding CPU_BENCHMARK_DB_def by simp

lemma GPU_BENCHMARK_DB_distinct: "distinct (map fst GPU_BENCHMARK_DB)"
  unfolding GPU_BENCHMARK_DB_def by simp

text \<open>
  Claim C4. A name that is a key of the benchmark table resolves to the table's value,
  whatever cores, clock speed or VRAM are passed along: \<open>get_cpu_score\<close> returns the
  CPU table's entry and \<open>get_gpu_score\<close> the GPU table's entry.
\<close>

theorem table_hit_returns_table_value:
  "(map_of CPU_BENCHMARK_DB n = Some s \<longrightarrow> get_cpu_score n cores clock_speed = Inr s) \<and>
   (map_of GPU_BENCHMARK_DB n = Some s \<longrightarrow> get_gpu_score n vram_gb = s)"
  by (simp add: get_cpu_score_def get_gpu_score_def)

theorem table_hit_returns_table_value_witness:
  "map_of CPU_BENCHMARK_DB ''AMD Ryzen 5 5600X'' = Some 22000 \<and>
   get_cpu_score ''AMD Ryzen 5 5600X'' (Some 6) (Some (Fin (7 / 2))) = Inr 22000 \<and>
   map_of GPU_BENCHMARK_DB ''NVIDIA GeForce RTX 3060'' = Some 13000 \<and>
   get_gpu_score ''NVIDIA GeForce RTX 3060'' (Some 12) = 13000"
proof -
  have c: "map_of CPU_BENCHMARK_DB ''AMD Ryzen 5 5600X'' = Some 22000"
    by (simp add: CPU_BENCHMARK_DB_def)
  have g: "map_of GPU_BENCHMARK_DB ''NVIDIA GeForce RTX 3060'' = Some 13000"
    by (simp add: GPU_BENCHMARK_DB_def)
  from c table_hit_returns_table_value
    [of "''AMD Ryzen 5 5600X''" 22000 "Some 6" "Some (Fin (7 / 2))"]
  have c': "get_cpu_score ''AMD Ryzen 5 5600X'' (Some 6) (Some (Fin (7 / 2))) = Inr 22000"
    by blast
  from g table_hit_returns_table_value
    [of "''NVIDIA GeForce RTX 3060''" 13000 _ _ "Some 12"]
  have g': "get_gpu_score ''NVIDIA GeForce RTX 3060'' (Some 12) = 13000"
    by blast
  from c c' g g' show ?thesis by blast
qed

text \<open>
  Claim C3, as stated, fails for an attribute that is passed but zero: for a GPU name
  outside the table, \<open>vram_gb = 0\<close> gives the default 8000, while the documented step
  function has 3000 for it.
\<close>

theorem zero_vram_is_not_banded:
  "map_of GPU_BENCHMARK_DB ''Mystery Card'' = None \<and>
   get_gpu_score ''Mystery Card'' (Some 0) = 8000 \<and> vram_band 0 = 3000"
  by (simp add: get_gpu_score_def GPU_BENCHMARK_DB_def vram_band_def)

text \<open>
  Claim C3, amended. For a name outside the table whose attributes are passed and
  are not zero, the resolver returns the documented estimate: \<open>get_cpu_score\<close> returns
  \<open>int(cores * clock_speed * 1000)\<close>, computed in float arithmetic and truncated (or
  raises as that expression does), and \<open>get_gpu_score\<close> returns the value of the
  six-band VRAM step function.
\<close>

theorem unknown_component_estimate:
  "(map_of CPU_BENCHMARK_DB n = None \<and> cores \<noteq> 0 \<and> clock_speed \<noteq> Fin 0 \<longrightarrow>
      get_cpu_score n (Some cores) (Some clock_speed) =
        ebind (float_of_int cores) (\<lambda>c. ebind (float_of_int 1000) (\<lambda>k.
          py_int (float_mul (float_mul c clock_speed) k)))) \<and>
   (map_of GPU_BENCHMARK_DB n = None \<and> vram_gb \<noteq> 0 \<longrightarrow>
      get_gpu_score n (Some vram_gb) = vram_band vram_gb)"
  by (simp add: get_cpu_score_def get_gpu_score_def cpu_estimate_def float_truthy_def
      vram_band_def)

theorem unknown_component_estimate_witness:
  "map_of CPU_BENCHMARK_DB ''Mystery Chip'' = None \<and>
   get_cpu_score ''Mystery Chip'' (Some 6) (Some (Fin (7 / 2))) = Inr 21000 \<and>
   map_of GPU_BENCHMARK_DB ''Mystery Chip'' = None \<and>
   get_gpu_score ''Mystery Chip'' (Some 12) = 15000"
proof -
  have c: "map_of CPU_BENCHMARK_DB ''Mystery Chip'' = None"
    by (simp add: CPU_BENCHMARK_DB_def)
  have g: "map_of GPU_BENCHMARK_DB ''Mystery Chip'' = None"
    by (simp add: GPU_BENCHMARK_DB_def)
  have e: "ebind (float_of_int 6) (\<lambda>c. ebind (float_of_int 1000) (\<lambda>k.
      py_int (float_mul (float_mul c (Fin (7 / 2))) k))) = Inr 21000"
    by (simp add: ebind_def float_of_int_def py_int_def to_float_int_values)
  from c g e unknown_component_estimate [of "''Mystery Chip''" 6 "Fin (7 / 2)" 12]
  show ?thesis
    by (simp add: vram_band_def)
qed

text \<open>
  Claim C9. The attribute guards test truth, not presence. For a CPU name that is not
  in the table, \<open>cores = 0\<close> or \<open>clock_speed = 0.0\<close> gives the default 10000, not the
  estimate (which would be 0); for a GPU name that is not in the table, \<open>vram_gb = 0\<close>
  gives the default 8000, not the lowest band 3000.
\<close>

theorem zero_attribute_gives_default:
  "(map_of CPU_BENCHMARK_DB n = None \<and> (cores = Some 0 \<or> clock_speed = Some (Fin 0))
      \<longrightarrow> get_cpu_score n cores clock_speed = Inr 10000) \<and>
   (map_of GPU_BENCHMARK_DB n = None \<longrightarrow> get_gpu_score n (Some 0) = 8000)"
  by (auto simp: get_cpu_score_def get_gpu_score_def float_truthy_def
           split: option.splits)

theorem zero_attribute_gives_default_witness:
  "map_of CPU_BENCHMARK_DB ''Mystery Chip'' = None \<and>
   get_cpu_score ''Mystery Chip'' (Some 0) (Some (Fin (7 / 2))) = Inr 10000 \<and>
   get_cpu_score ''Mystery Chip'' (Some 8) (Some (Fin 0)) = Inr 10000 \<and>
   map_of GPU_BENCHMARK_DB ''Mystery Chip'' = None \<and>
   get_gpu_score ''Mystery Chip'' (Some 0) = 8000"
proof -
  have c: "map_of CPU_BENCHMARK_DB ''Mystery Chip'' = None"
    by (simp add: CPU_BENCHMARK_DB_def)
  have g: "map_of GPU_BENCHMARK_DB ''Mystery Chip'' = None"
    by (simp add: GPU_BENCHMARK_DB_def)
  from c zero_attribute_gives_default
    [of "''Mystery Chip''" "Some 0" "Some (Fin (7 / 2))"]
  have c1: "get_cpu_score ''Mystery Chip'' (Some 0) (Some (Fin (7 / 2))) = Inr 10000"
    by blast
  from c zero_attribute_gives_default
    [of "''Mystery Chip''" "Some 8" "Some (Fin 0)"]
  have c2: "get_cpu_score ''Mystery Chip'' (Some 8) (Some (Fin 0)) = Inr 10000"
    by blast
  from g zero_attribute_gives_default [of "''Mystery Chip''"]
  have g1: "get_gpu_score ''Mystery Chip'' (Some 0) = 8000"
    by blast
  from c c1 c2 g g1 show ?thesis by blast
qed

section \<open>Properties of the result\<close>



text \<open>
  Claim C10. In every returned result \<open>can_run\<close> is false exactly when \<open>settings\<close> is
  "Cannot Run", and true exactly when \<open>settings\<close> is "Low", "Medium" or "High".
\<close>

theorem can_run_iff_not_cannot_run:
  assumes "check_game_compatibility u g = Inr res"
  shows "(can_run res = False \<longleftrightarrow> settings res = ''Cannot Run'') \<and>
         (can_run res = True \<longleftrightarrow> settings res \<in> {''Low'', ''Medium'', ''High''})"
  using assms
  by (auto simp: check_game_compatibility_def evaluate_def ebind_def Let_def
      split: sum.splits if_splits)

theorem can_run_iff_not_cannot_run_witness:
  "\<exists>res. check_game_compatibility
      \<lparr>cpu = \<lparr>c_name = ''Mystery Chip'', c_cores = None, c_clock_speed = None,
              c_score = Some 30000\<rparr>,
       gpu = \<lparr>g_name = ''Mystery Card'', g_vram_gb = None, g_score = Some 20000\<rparr>,
       ram_gb = 32\<rparr>
      \<lparr>minimum = \<lparr>cpu_score = 16000, gpu_score = 9000, req_ram_gb = 8\<rparr>,
       recommended = \<lparr>cpu_score = 25000, gpu_score = 18000, req_ram_gb = 16\<rparr>\<rparr> = Inr res \<and>
     (can_run res = False \<longleftrightarrow> settings res = ''Cannot Run'') \<and>
     (can_run res = True \<longleftrightarrow> settings res \<in> {''Low'', ''Medium'', ''High''})"
proof -
  define g where "g = \<lparr>minimum = \<lparr>cpu_score = 16000, gpu_score = 9000, req_ram_gb = 8\<rparr>,
        recommended = \<lparr>cpu_score = 25000, gpu_score = 18000, req_ram_gb = 16\<rparr>\<rparr>"
  define u where "u = \<lparr>cpu = \<lparr>c_name = ''Mystery Chip'', c_cores = None,
        c_clock_speed = None, c_score = Some 30000\<rparr>,
        gpu = \<lparr>g_name = ''Mystery Card'', g_vram_gb = None, g_score = Some 20000\<rparr>,
        ram_gb = 32\<rparr>"
  have "\<exists>res. evaluate 30000 20000 32 g = Inr res \<and> settings res = ''High'' \<and>
      can_run res = True"
    by (rule evaluate_high) (simp_all add: g_def)
  then obtain res where r: "check_game_compatibility u g = Inr res"
    by (auto simp: check_with_scores u_def)
  from can_run_iff_not_cannot_run [OF r] r show ?thesis
    unfolding u_def g_def by blast
qed

text \<open>
  Claim C5, as stated, fails where a value to be printed has more than 4300 decimal
  digits: the f-string of the failing dimension raises \<open>ValueError\<close> and no result is
  returned. Here the CPU score is \<open>10 ^ 4300\<close> (4301 digits) and the minimum one more.
\<close>

theorem huge_score_raises_value_error:
  "check_game_compatibility
      \<lparr>cpu = \<lparr>c_name = ''Mystery Chip'', c_cores = None, c_clock_speed = None,
              c_score = Some (10 ^ int_max_str_digits)\<rparr>,
       gpu = \<lparr>g_name = ''Mystery Card'', g_vram_gb = None, g_score = Some 10000\<rparr>,
       ram_gb = 16\<rparr>
      \<lparr>minimum = \<lparr>cpu_score = 10 ^ int_max_str_digits + 1, gpu_score = 9000,
                   req_ram_gb = 8\<rparr>,
       recommended = \<lparr>cpu_score = 10 ^ int_max_str_digits + 2, gpu_score = 18000,
                       req_ram_gb = 16\<rparr>\<rparr>
   = Inl ValueError \<and> int_max_str_digits = 4300"
proof -
  define n :: int where "n = 10 ^ int_max_str_digits"
  have "10 ^ int_max_str_digits \<le> \<bar>n\<bar>"
    by (simp add: n_def)
  then have "str_int n = Inl ValueError"
    by (rule str_int_beyond_limit)
  then have "evaluate n 10000 16
      \<lparr>minimum = \<lparr>cpu_score = n + 1, gpu_score = 9000, req_ram_gb = 8\<rparr>,
       recommended = \<lparr>cpu_score = n + 2, gpu_score = 18000, req_ram_gb = 16\<rparr>\<rparr>
      = Inl ValueError"
    by (simp add: evaluate_def Let_def ebind_def)
  then have "check_game_compatibility
      \<lparr>cpu = \<lparr>c_name = ''Mystery Chip'', c_cores = None, c_clock_speed = None,
              c_score = Some n\<rparr>,
       gpu = \<lparr>g_name = ''Mystery Card'', g_vram_gb = None, g_score = Some 10000\<rparr>,
       ram_gb = 16\<rparr>
      \<lparr>minimum = \<lparr>cpu_score = n + 1, gpu_score = 9000, req_ram_gb = 8\<rparr>,
       recommended = \<lparr>cpu_score = n + 2, gpu_score = 18000, req_ram_gb = 16\<rparr>\<rparr>
      = Inl ValueError"
    by (simp add: check_with_scores)
  then show ?thesis
    unfolding n_def using int_max_str_digits_def by (rule conjI)
qed

text \<open>
  Claim C5, amended. When at least one minimum is not met, and on every failing
  dimension the user's value and the minimum have at most 4300 decimal digits (the
  default limit of the conversion to text), the result has \<open>can_run\<close> false and
  \<open>settings\<close> "Cannot Run", and its notes are the fixed prefix followed by the entries
  of exactly the failing dimensions, in the order CPU, GPU, RAM, joined by ", ". An
  entry prints the user's value and the minimum as \<open>(yours: X, need: Y)\<close>; the two RAM
  values carry the suffix GB.
\<close>

theorem below_minimum_lists_every_bottleneck:
  assumes "user_cpu_score u = Inr c"
    and "\<not> (cpu_score (minimum g) \<le> c \<and> gpu_score (minimum g) \<le> user_gpu_score u \<and>
       req_ram_gb (minimum g) \<le> ram_gb u)"
    and "cpu_score (minimum g) \<le> c \<or>
       \<bar>c\<bar> < 10 ^ int_max_str_digits \<and> \<bar>cpu_score (minimum g)\<bar> < 10 ^ int_max_str_digits"
    and "gpu_score (minimum g) \<le> user_gpu_score u \<or>
       \<bar>user_gpu_score u\<bar> < 10 ^ int_max_str_digits \<and>
       \<bar>gpu_score (minimum g)\<bar> < 10 ^ int_max_str_digits"
    and "req_ram_gb (minimum g) \<le> ram_gb u \<or>
       \<bar>ram_gb u\<bar> < 10 ^ int_max_str_digits \<and>
       \<bar>req_ram_gb (minimum g)\<bar> < 10 ^ int_max_str_digits"
  shows "\<exists>res. check_game_compatibility u g = Inr res \<and> can_run res = False \<and>
     settings res = ''Cannot Run'' \<and>
     notes' res = ''Hardware below minimum requirements. Bottlenecks: '' @
       join '', '' (map snd (filter (\<lambda>e. \<not> fst e)
         [(cpu_score (minimum g) \<le> c,
           ''CPU (yours: '' @ digits_int c @ '', need: ''
             @ digits_int (cpu_score (minimum g)) @ '')''),
          (gpu_score (minimum g) \<le> user_gpu_score u,
           ''GPU (yours: '' @ digits_int (user_gpu_score u) @ '', need: ''
             @ digits_int (gpu_score (minimum g)) @ '')''),
          (req_ram_gb (minimum g) \<le> ram_gb u,
           ''RAM (yours: '' @ digits_int (ram_gb u) @ ''GB, need: ''
             @ digits_int (req_ram_gb (minimum g)) @ ''GB)'')]))"
  unfolding check_resolved [OF assms(1)]
  using assms(2-5) by (rule evaluate_below_minimum)

theorem below_minimum_lists_every_bottleneck_witness:
  "\<exists>res. check_game_compatibility
      \<lparr>cpu = \<lparr>c_name = ''Mystery Chip'', c_cores = None, c_clock_speed = None,
              c_score = Some 10000\<rparr>,
       gpu = \<lparr>g_name = ''Mystery Card'', g_vram_gb = None, g_score = Some 6000\<rparr>,
       ram_gb = 4\<rparr>
      \<lparr>minimum = \<lparr>cpu_score = 16000, gpu_score = 9000, req_ram_gb = 8\<rparr>,
       recommended = \<lparr>cpu_score = 25000, gpu_score = 18000, req_ram_gb = 16\<rparr>\<rparr> = Inr res \<and>
     can_run res = False \<and> settings res = ''Cannot Run'' \<and>
     notes' res = ''Hardware below minimum requirements. Bottlenecks: CPU (yours: 10000, need: 16000), GPU (yours: 6000, need: 9000), RAM (yours: 4GB, need: 8GB)''"
proof -
  define g where "g = \<lparr>minimum = \<lparr>cpu_score = 16000, gpu_score = 9000, req_ram_gb = 8\<rparr>,
        recommended = \<lparr>cpu_score = 25000, gpu_score = 18000, req_ram_gb = 16\<rparr>\<rparr>"
  define u where "u = \<lparr>cpu = \<lparr>c_name = ''Mystery Chip'', c_cores = None,
        c_clock_speed = None, c_score = Some 10000\<rparr>,
        gpu = \<lparr>g_name = ''Mystery Card'', g_vram_gb = None, g_score = Some 6000\<rparr>,
        ram_gb = 4\<rparr>"
  have c: "user_cpu_score u = Inr 10000"
    by (simp add: u_def user_cpu_score_def)
  have gp: "user_gpu_score u = 6000" and r: "ram_gb u = 4"
    by (simp_all add: u_def user_gpu_score_def)
  have m: "cpu_score (minimum g) = 16000" "gpu_score (minimum g) = 9000"
      "req_ram_gb (minimum g) = 8"
    by (simp_all add: g_def)
  have "\<exists>res. check_game_compatibility u g = Inr res \<and> can_run res = False \<and>
     settings res = ''Cannot Run'' \<and>
     notes' res = ''Hardware below minimum requirements. Bottlenecks: '' @
       join '', '' (map snd (filter (\<lambda>e. \<not> fst e)
         [(cpu_score (minimum g) \<le> 10000,
           ''CPU (yours: '' @ digits_int 10000 @ '', need: ''
             @ digits_int (cpu_score (minimum g)) @ '')''),
          (gpu_score (minimum g) \<le> user_gpu_score u,
           ''GPU (yours: '' @ digits_int (user_gpu_score u) @ '', need: ''
             @ digits_int (gpu_score (minimum g)) @ '')''),
          (req_ram_gb (minimum g) \<le> ram_gb u,
           ''RAM (yours: '' @ digits_int (ram_gb u) @ ''GB, need: ''
             @ digits_int (req_ram_gb (minimum g)) @ ''GB)'')]))"
    using small_below_limit
    by (intro below_minimum_lists_every_bottleneck [OF c]) (simp_all add: gp r m)
  then show ?thesis
    unfolding gp r m by (simp add: digits_int_values u_def g_def)
qed

text \<open>
  Claim C6, as stated, fails for a profile whose recommended value lies below the
  minimum: scores equal to the recommended values then miss a minimum, and the
  minimum is tested first. With minimum CPU 16000 and recommended CPU 12000 the user
  at the recommended values cannot run the game.
\<close>

theorem recommended_below_minimum_cannot_run:
  "map_sum id (\<lambda>res. (can_run res, settings res)) (check_game_compatibility
      \<lparr>cpu = \<lparr>c_name = ''Mystery Chip'', c_cores = None, c_clock_speed = None,
              c_score = Some 12000\<rparr>,
       gpu = \<lparr>g_name = ''Mystery Card'', g_vram_gb = None, g_score = Some 18000\<rparr>,
       ram_gb = 16\<rparr>
      \<lparr>minimum = \<lparr>cpu_score = 16000, gpu_score = 9000, req_ram_gb = 8\<rparr>,
       recommended = \<lparr>cpu_score = 12000, gpu_score = 18000, req_ram_gb = 16\<rparr>\<rparr>)
   = Inr (False, ''Cannot Run'')"
  by (simp add: check_with_scores evaluate_def Let_def ebind_def str_int_small)

text \<open>
  Claim C6, amended. For every requirements profile in which no minimum exceeds its
  recommended value, a user whose resolved CPU score, GPU score and RAM equal the
  recommended values gets the tier "High" with \<open>can_run\<close> true.
\<close>

theorem exactly_recommended_gives_high:
  assumes "cpu_score (minimum g) \<le> cpu_score (recommended g)"
    and "gpu_score (minimum g) \<le> gpu_score (recommended g)"
    and "req_ram_gb (minimum g) \<le> req_ram_gb (recommended g)"
    and "user_cpu_score u = Inr (cpu_score (recommended g))"
    and "user_gpu_score u = gpu_score (recommended g)"
    and "ram_gb u = req_ram_gb (recommended g)"
  shows "\<exists>res. check_game_compatibility u g = Inr res \<and> settings res = ''High'' \<and>
     can_run res = True"
  unfolding check_resolved [OF assms(4)]
  using assms(1-3,5,6) by (intro evaluate_high) simp_all

theorem exactly_recommended_gives_high_witness:
  "\<exists>res. check_game_compatibility
      \<lparr>cpu = \<lparr>c_name = ''Mystery Chip'', c_cores = None, c_clock_speed = None,
              c_score = Some 25000\<rparr>,
       gpu = \<lparr>g_name = ''Mystery Card'', g_vram_gb = None, g_score = Some 18000\<rparr>,
       ram_gb = 16\<rparr>
      \<lparr>minimum = \<lparr>cpu_score = 16000, gpu_score = 9000, req_ram_gb = 8\<rparr>,
       recommended = \<lparr>cpu_score = 25000, gpu_score = 18000, req_ram_gb = 16\<rparr>\<rparr> = Inr res \<and>
     settings res = ''High'' \<and> can_run res = True"
  using exactly_recommended_gives_high
    [of "\<lparr>minimum = \<lparr>cpu_score = 16000, gpu_score = 9000, req_ram_gb = 8\<rparr>,
          recommended = \<lparr>cpu_score = 25000, gpu_score = 18000, req_ram_gb = 16\<rparr>\<rparr>"
        "\<lparr>cpu = \<lparr>c_name = ''Mystery Chip'', c_cores = None, c_clock_speed = None,
              c_score = Some 25000\<rparr>,
         gpu = \<lparr>g_name = ''Mystery Card'', g_vram_gb = None, g_score = Some 18000\<rparr>,
         ram_gb = 16\<rparr>"]
  by (simp add: user_cpu_score_def user_gpu_score_def)

section \<open>The gaps of the last branch\<close>

text \<open>
  Claim C7, as stated, fails on a dimension where the user exceeds the recommended
  value while another dimension keeps the evaluation in the last branch. CPU score
  29500 against minimum 16000 and recommended 25000 has the gap 1.5; the GPU score
  13500 is below the recommended 18000, so the evaluation is in the last branch (the
  gaps are 1.5, 0.5 and 0.25, the tier is Medium).
\<close>

theorem gap_exceeds_one_above_recommended:
  "map_sum id settings (check_game_compatibility
      \<lparr>cpu = \<lparr>c_name = ''Mystery Chip'', c_cores = None, c_clock_speed = None,
              c_score = Some 29500\<rparr>,
       gpu = \<lparr>g_name = ''Mystery Card'', g_vram_gb = None, g_score = Some 13500\<rparr>,
       ram_gb = 10\<rparr>
      \<lparr>minimum = \<lparr>cpu_score = 16000, gpu_score = 9000, req_ram_gb = 8\<rparr>,
       recommended = \<lparr>cpu_score = 25000, gpu_score = 18000, req_ram_gb = 16\<rparr>\<rparr>)
     = Inr ''Medium'' \<and>
   gap 29500 16000 25000 = Inr (Fin (3 / 2)) \<and> \<not> float_ge (Fin 1) (Fin (3 / 2))"
  by (simp add: check_with_scores evaluate_between gap_def int_truediv_def ebind_def
      to_float_values)

text \<open>
  Claim C7, amended. On a dimension where the user meets the minimum and the minimum
  is strictly below the recommended value, the gap \<open>(user - min) / (rec - min)\<close> is a
  finite float that is at least 0, and at most 1 when the user does not exceed the
  recommended value; the only other outcome, possible only above the recommended
  value, is an \<open>OverflowError\<close> of the division.
\<close>

theorem gap_bounds:
  assumes "mn \<le> u" and "mn < rc"
  shows "(\<exists>x. gap u mn rc = Inr (Fin x) \<and> 0 \<le> x \<and> (u \<le> rc \<longrightarrow> x \<le> 1)) \<or>
         (rc < u \<and> gap u mn rc = Inl OverflowError)"
  using assms gap_cases by blast

theorem gap_bounds_witness:
  "(16000::int) \<le> 20500 \<and> (16000::int) < 25000 \<and>
   gap 20500 16000 25000 = Inr (Fin (1 / 2)) \<and>
   ((\<exists>x. gap 20500 16000 25000 = Inr (Fin x) \<and> 0 \<le> x \<and> ((20500::int) \<le> 25000 \<longrightarrow> x \<le> 1)) \<or>
    ((25000::int) < 20500 \<and> gap 20500 16000 25000 = Inl OverflowError))"
  using gap_bounds [of 16000 20500 25000]
  by (simp add: gap_def int_truediv_def to_float_values)

text \<open>
  Claim C1. The example hardware of the module (Ryzen 5 5600X, RTX 3060, 16 GB)
  against requirements whose recommended RAM equals the minimum RAM (8 GB): the
  hardware meets every minimum, misses the recommended CPU and GPU scores, and the
  RAM quotient \<open>(16 - 8) / (8 - 8)\<close> raises \<open>ZeroDivisionError\<close>. No gap of 1.0 is
  substituted and no precondition is reported.
\<close>

theorem equal_thresholds_raise_zero_division:
  "check_game_compatibility
      \<lparr>cpu = \<lparr>c_name = ''AMD Ryzen 5 5600X'', c_cores = None, c_clock_speed = None,
              c_score = None\<rparr>,
       gpu = \<lparr>g_name = ''NVIDIA GeForce RTX 3060'', g_vram_gb = None, g_score = None\<rparr>,
       ram_gb = 16\<rparr>
      \<lparr>minimum = \<lparr>cpu_score = 16000, gpu_score = 9000, req_ram_gb = 8\<rparr>,
       recommended = \<lparr>cpu_score = 25000, gpu_score = 18000, req_ram_gb = 8\<rparr>\<rparr>
   = Inl ZeroDivisionError"
proof -
  define g where "g = \<lparr>minimum = \<lparr>cpu_score = 16000, gpu_score = 9000, req_ram_gb = 8\<rparr>,
        recommended = \<lparr>cpu_score = 25000, gpu_score = 18000, req_ram_gb = 8\<rparr>\<rparr>"
  define u where "u = \<lparr>cpu = \<lparr>c_name = ''AMD Ryzen 5 5600X'', c_cores = None,
        c_clock_speed = None, c_score = None\<rparr>,
        gpu = \<lparr>g_name = ''NVIDIA GeForce RTX 3060'', g_vram_gb = None, g_score = None\<rparr>,
        ram_gb = 16\<rparr>"
  have c: "user_cpu_score u = Inr 22000"
    by (simp add: u_def user_cpu_score_def get_cpu_score_def CPU_BENCHMARK_DB_def)
  have gp: "user_gpu_score u = 13000"
    by (simp add: u_def user_gpu_score_def get_gpu_score_def GPU_BENCHMARK_DB_def)
  obtain a where a: "gap 22000 16000 25000 = Inr (Fin a)"
    using gap_cases [of 16000 25000 22000] by auto
  obtain b where b: "gap 13000 9000 18000 = Inr (Fin b)"
    using gap_cases [of 9000 18000 13000] by auto
  have r: "ram_gb u = 16"
    by (simp add: u_def)
  have "map_sum id settings (check_game_compatibility u g) = Inl ZeroDivisionError"
    by (simp add: check_resolved [OF c] gp r evaluate_between g_def a b
        gap_zero_denominator ebind_def)
  then have "check_game_compatibility u g = Inl ZeroDivisionError"
    by (rule map_sum_settings_Inl)
  then show ?thesis
    unfolding u_def g_def .
qed

section \<open>Monotonicity of the tier\<close>

text \<open>
  Claim C2, as stated, fails where a recommended value lies below the minimum (the
  module does not check the profile). With minimum CPU 16000 and recommended CPU 8000
  the CPU quotient has a negative denominator: at CPU score 16000 the quotients are
  0, 0.75 and 1.5, their mean is 0.75 and the tier is Medium; raising the CPU score to
  28000 makes them -1.5, 0.75 and 1.5, the mean 0.25 and the tier Low.
\<close>

theorem tier_drops_when_recommended_below_minimum:
  "map_sum id settings (check_game_compatibility
      \<lparr>cpu = \<lparr>c_name = ''Mystery Chip'', c_cores = None, c_clock_speed = None,
              c_score = Some 16000\<rparr>,
       gpu = \<lparr>g_name = ''Mystery Card'', g_vram_gb = None, g_score = Some 15750\<rparr>,
       ram_gb = 20\<rparr>
      \<lparr>minimum = \<lparr>cpu_score = 16000, gpu_score = 9000, req_ram_gb = 8\<rparr>,
       recommended = \<lparr>cpu_score = 8000, gpu_score = 18000, req_ram_gb = 16\<rparr>\<rparr>)
     = Inr ''Medium'' \<and>
   map_sum id settings (check_game_compatibility
      \<lparr>cpu = \<lparr>c_name = ''Mystery Chip'', c_cores = None, c_clock_speed = None,
              c_score = Some 28000\<rparr>,
       gpu = \<lparr>g_name = ''Mystery Card'', g_vram_gb = None, g_score = Some 15750\<rparr>,
       ram_gb = 20\<rparr>
      \<lparr>minimum = \<lparr>cpu_score = 16000, gpu_score = 9000, req_ram_gb = 8\<rparr>,
       recommended = \<lparr>cpu_score = 8000, gpu_score = 18000, req_ram_gb = 16\<rparr>\<rparr>)
     = Inr ''Low'' \<and>
   tier_rank ''Low'' < tier_rank ''Medium''"
  by (simp add: check_with_scores evaluate_between gap_def int_truediv_def ebind_def
      to_float_values float_inf_def float_sgn_def tier_rank_values)

text \<open>
  Claim C2, amended. When no minimum exceeds its recommended value, raising user
  scores (one of them or several) with the requirements fixed never lowers the tier in
  the order Cannot Run < Low < Medium < High, whenever both evaluations return a result.
  The quotients, their sum and the mean are float operations; the proof rests on
  rounding being monotone. By \<open>evaluate_returns\<close> an evaluation does return when every
  minimum is strictly below its recommended value, no score is more than
  \<open>2 ^ 1023\<close> above its minimum, and no score or minimum has more than 4300 digits.
\<close>

theorem tier_monotone_when_minimum_le_recommended:
  assumes "cpu_score (minimum g) \<le> cpu_score (recommended g)"
    and "gpu_score (minimum g) \<le> gpu_score (recommended g)"
    and "req_ram_gb (minimum g) \<le> req_ram_gb (recommended g)"
    and "user_cpu_score u = Inr c" and "user_cpu_score u' = Inr c'"
    and "c \<le> c'" and "user_gpu_score u \<le> user_gpu_score u'" and "ram_gb u \<le> ram_gb u'"
    and "check_game_compatibility u g = Inr res"
    and "check_game_compatibility u' g = Inr res'"
  shows "tier_rank (settings res) \<le> tier_rank (settings res')"
proof -
  have "evaluate c (user_gpu_score u) (ram_gb u) g = Inr res"
    using assms(4,9) by (simp add: check_resolved)
  moreover have "evaluate c' (user_gpu_score u') (ram_gb u') g = Inr res'"
    using assms(5,10) by (simp add: check_resolved)
  ultimately show ?thesis
    using assms(1-3,6-8) by (rule evaluate_mono [rotated 6])
qed

theorem tier_monotone_when_minimum_le_recommended_witness:
  "\<exists>res res'.
     check_game_compatibility
       \<lparr>cpu = \<lparr>c_name = ''Mystery Chip'', c_cores = None, c_clock_speed = None,
               c_score = Some 16000\<rparr>,
        gpu = \<lparr>g_name = ''Mystery Card'', g_vram_gb = None, g_score = Some 15750\<rparr>,
        ram_gb = 8\<rparr>
       \<lparr>minimum = \<lparr>cpu_score = 16000, gpu_score = 9000, req_ram_gb = 8\<rparr>,
        recommended = \<lparr>cpu_score = 25000, gpu_score = 18000, req_ram_gb = 16\<rparr>\<rparr>
       = Inr res \<and>
     check_game_compatibility
       \<lparr>cpu = \<lparr>c_name = ''Mystery Chip'', c_cores = None, c_clock_speed = None,
               c_score = Some 29500\<rparr>,
        gpu = \<lparr>g_name = ''Mystery Card'', g_vram_gb = None, g_score = Some 15750\<rparr>,
        ram_gb = 8\<rparr>
       \<lparr>minimum = \<lparr>cpu_score = 16000, gpu_score = 9000, req_ram_gb = 8\<rparr>,
        recommended = \<lparr>cpu_score = 25000, gpu_score = 18000, req_ram_gb = 16\<rparr>\<rparr>
       = Inr res' \<and>
     settings res = ''Low'' \<and> settings res' = ''Medium'' \<and>
     tier_rank (settings res) \<le> tier_rank (settings res')"
proof -
  define g where "g = \<lparr>minimum = \<lparr>cpu_score = 16000, gpu_score = 9000, req_ram_gb = 8\<rparr>,
        recommended = \<lparr>cpu_score = 25000, gpu_score = 18000, req_ram_gb = 16\<rparr>\<rparr>"
  define u where "u = \<lparr>cpu = \<lparr>c_name = ''Mystery Chip'', c_cores = None,
        c_clock_speed = None, c_score = Some 16000\<rparr>,
        gpu = \<lparr>g_name = ''Mystery Card'', g_vram_gb = None, g_score = Some 15750\<rparr>,
        ram_gb = 8\<rparr>"
  define u' where "u' = \<lparr>cpu = \<lparr>c_name = ''Mystery Chip'', c_cores = None,
        c_clock_speed = None, c_score = Some 29500\<rparr>,
        gpu = \<lparr>g_name = ''Mystery Card'', g_vram_gb = None, g_score = Some 15750\<rparr>,
        ram_gb = 8\<rparr>"
  have "map_sum id settings (check_game_compatibility u g) = Inr ''Low''"
    by (simp add: u_def g_def check_with_scores evaluate_between gap_def int_truediv_def
        ebind_def to_float_values)
  then obtain res where r: "check_game_compatibility u g = Inr res" "settings res = ''Low''"
    using map_sum_settings_Inr by blast
  have "map_sum id settings (check_game_compatibility u' g) = Inr ''Medium''"
    by (simp add: u'_def g_def check_with_scores evaluate_between gap_def int_truediv_def
        ebind_def to_float_values)
  then obtain res' where r': "check_game_compatibility u' g = Inr res'"
      "settings res' = ''Medium''"
    using map_sum_settings_Inr by blast
  have "tier_rank (settings res) \<le> tier_rank (settings res')"
  proof (rule tier_monotone_when_minimum_le_recommended [OF _ _ _ _ _ _ _ _ r(1) r'(1)])
    show "user_cpu_score u = Inr 16000" "user_cpu_score u' = Inr 29500"
      by (simp_all add: u_def u'_def user_cpu_score_def)
  qed (simp_all add: g_def u_def u'_def user_gpu_score_def)
  with r r' show ?thesis
    unfolding u_def u'_def g_def by blast
qed

end
